theory Spec2Isabelle
  imports Complex_Main
begin

section \<open>Data model of \<open>app.py\<close>\<close>

text \<open>
  The script builds one pandas table. Its columns are the six series requested from the
  macro provider, the three closing series requested from the market provider, and the
  three columns the script derives.
\<close>

datatype col =
    WALCL | WTREGEN | RRPONTSYD | SOFR | IORB | T10Y2Y
  | GSPC | VIX | MOVE
  | Net_Liquidity | Rate_Spread | Liq_MA20

text \<open>
  A cell is a float: \<open>NaN\<close> is pandas' marker of a missing value, \<open>Val x\<close> a number.
  Numbers are reals here: the rounding of binary floating point and the two infinities
  are outside the model.
\<close>

datatype cell = NaN | Val real

type_synonym timestamp = int  \<comment> \<open>seconds since the epoch\<close>
type_synonym series = "cell list"

text \<open>
  A DataFrame, column by column as pandas stores it: the index, and the columns in
  order, each a series as long as the index.
\<close>

record frame =
  index :: "timestamp list"
  data :: "(col \<times> series) list"

definition columns :: "frame \<Rightarrow> col list" where
  "columns df = map fst (data df)"

datatype exn = KeyError | IndexError | ProviderError string

subsection \<open>Float operations with a missing operand\<close>

fun cell_sub :: "cell \<Rightarrow> cell \<Rightarrow> cell" where
  "cell_sub (Val a) (Val b) = Val (a - b)"
| "cell_sub _ _ = NaN"

fun cell_div :: "cell \<Rightarrow> real \<Rightarrow> cell" where
  "cell_div (Val a) k = Val (a / k)"
| "cell_div NaN k = NaN"

text \<open>Every comparison with NaN is false.\<close>

fun cell_ge :: "cell \<Rightarrow> real \<Rightarrow> bool" where
  "cell_ge (Val a) k = (a \<ge> k)"
| "cell_ge NaN k = False"

fun cell_gt :: "cell \<Rightarrow> real \<Rightarrow> bool" where
  "cell_gt (Val a) k = (a > k)"
| "cell_gt NaN k = False"

fun vals :: "series \<Rightarrow> real list" where
  "vals [] = []"
| "vals (NaN # cs) = vals cs"
| "vals (Val v # cs) = v # vals cs"

subsection \<open>The pandas operations the script calls\<close>

text \<open>\<open>df[c]\<close>: the column as a series, KeyError when the frame has no such column.\<close>

definition getitem :: "frame \<Rightarrow> col \<Rightarrow> exn + series" where
  "getitem df c = (case map_of (data df) c of None \<Rightarrow> Inl KeyError | Some s \<Rightarrow> Inr s)"

text \<open>
  \<open>df[c] = s\<close> for a series \<open>s\<close> computed from the same frame (so with the same
  index): the column is replaced where it stands, or appended when it is new.
\<close>

fun set_col :: "col \<Rightarrow> series \<Rightarrow> (col \<times> series) list \<Rightarrow> (col \<times> series) list" where
  "set_col c s [] = [(c, s)]"
| "set_col c s ((k, v) # kvs) = (if k = c then (c, s) # kvs else (k, v) # set_col c s kvs)"

definition setitem :: "frame \<Rightarrow> col \<Rightarrow> series \<Rightarrow> frame" where
  "setitem df c s = df\<lparr>data := set_col c s (data df)\<rparr>"

definition series_div :: "series \<Rightarrow> real \<Rightarrow> series" where
  "series_div s k = map (\<lambda>x. cell_div x k) s"

definition series_sub :: "series \<Rightarrow> series \<Rightarrow> series" where
  "series_sub a b = map (\<lambda>(x, y). cell_sub x y) (zip a b)"

text \<open>
  \<open>pd.concat([a, b], axis=1)\<close>: the outer join on the index. The result is indexed by
  the sorted union of the two indexes, and every column is laid out on it: NaN at a
  timestamp its own frame has no row for.
\<close>

definition reindex :: "timestamp list \<Rightarrow> timestamp list \<Rightarrow> series \<Rightarrow> series" where
  "reindex old new s =
     map (\<lambda>t. case map_of (zip old s) t of None \<Rightarrow> NaN | Some v \<Rightarrow> v) new"

definition concat_axis1 :: "frame \<Rightarrow> frame \<Rightarrow> frame" where
  "concat_axis1 a b =
     (let idx = sort (remdups (index a @ index b))
      in \<lparr>index = idx,
          data = map (\<lambda>(c, s). (c, reindex (index a) idx s)) (data a)
               @ map (\<lambda>(c, s). (c, reindex (index b) idx s)) (data b)\<rparr>)"

text \<open>
  \<open>.resample('D').mean()\<close>: one row for every calendar day from the day of the first
  row to the day of the last, labelled by the day's midnight; a cell is the mean of the
  numbers observed in that column on that day, NaN when there is none.
\<close>

definition day_of :: "timestamp \<Rightarrow> int" where
  "day_of t = t div 86400"

definition mean_skipna :: "series \<Rightarrow> cell" where
  "mean_skipna cs =
     (if vals cs = [] then NaN else Val (sum_list (vals cs) / real (length (vals cs))))"

definition resample_D_mean :: "frame \<Rightarrow> frame" where
  "resample_D_mean df =
     (if index df = [] then df
      else let days = [day_of (hd (index df)) .. day_of (last (index df))]
           in \<lparr>index = map (\<lambda>d. d * 86400) days,
               data = map (\<lambda>(c, s).
                        (c, map (\<lambda>d. mean_skipna
                                   (map snd (filter (\<lambda>(t, v). day_of t = d) (zip (index df) s))))
                                days))
                      (data df)\<rparr>)"

text \<open>
  \<open>.fillna(method='ffill')\<close>: a missing cell takes the last number seen above it in
  its column, and stays missing when there is none.
\<close>

fun ffill_series :: "cell \<Rightarrow> series \<Rightarrow> series" where
  "ffill_series prev [] = []"
| "ffill_series prev (x # xs) =
     (if x = NaN then prev else x) # ffill_series (if x = NaN then prev else x) xs"

definition ffill :: "frame \<Rightarrow> frame" where
  "ffill df = df\<lparr>data := map (\<lambda>(c, s). (c, ffill_series NaN s)) (data df)\<rparr>"

text \<open>
  \<open>.dropna()\<close>: every row with a missing cell in any column is removed; the rows that
  stay keep their order.
\<close>

definition complete_row :: "frame \<Rightarrow> nat \<Rightarrow> bool" where
  "complete_row df i = list_all (\<lambda>(c, s). s ! i \<noteq> NaN) (data df)"

definition dropna :: "frame \<Rightarrow> frame" where
  "dropna df =
     (let keep = filter (complete_row df) [0..<length (index df)]
      in \<lparr>index = map (\<lambda>i. index df ! i) keep,
          data = map (\<lambda>(c, s). (c, map (\<lambda>i. s ! i) keep)) (data df)\<rparr>)"

text \<open>
  \<open>s.rolling(window=w).mean()\<close>: at position \<open>i\<close> the window is the last \<open>w\<close> cells
  up to and including \<open>i\<close>; \<open>min_periods\<close> defaults to \<open>w\<close>, so the result is NaN
  unless the window holds \<open>w\<close> numbers.
\<close>

definition rolling_mean :: "nat \<Rightarrow> series \<Rightarrow> series" where
  "rolling_mean w s =
     map (\<lambda>i. if length (vals (drop (Suc i - w) (take (Suc i) s))) < w then NaN
              else Val (sum_list (vals (drop (Suc i - w) (take (Suc i) s)))
                        / real (length (vals (drop (Suc i - w) (take (Suc i) s))))))
         [0..<length s]"

text \<open>
  \<open>df.iloc[i]\<close>: the row at a position, counted from the end when \<open>i\<close> is negative;
  IndexError out of range. The row is a series labelled by the columns, and reading a
  label it does not have is a KeyError.
\<close>

type_synonym pyrow = "(col \<times> cell) list"

definition position :: "nat \<Rightarrow> int \<Rightarrow> nat option" where
  "position n i =
     (if 0 \<le> i \<and> i < int n then Some (nat i)
      else if i < 0 \<and> - int n \<le> i then Some (nat (int n + i))
      else None)"

definition iloc :: "frame \<Rightarrow> int \<Rightarrow> exn + pyrow" where
  "iloc df i =
     (case position (length (index df)) i of
        None \<Rightarrow> Inl IndexError
      | Some j \<Rightarrow> Inr (map (\<lambda>(c, s). (c, s ! j)) (data df)))"

definition row_get :: "pyrow \<Rightarrow> col \<Rightarrow> exn + cell" where
  "row_get r c = (case map_of r c of None \<Rightarrow> Inl KeyError | Some v \<Rightarrow> Inr v)"

subsection \<open>Raising and sequencing\<close>

definition exn_bind :: "exn + 'a \<Rightarrow> ('a \<Rightarrow> exn + 'b) \<Rightarrow> exn + 'b" where
  "exn_bind m f = (case m of Inl e \<Rightarrow> Inl e | Inr x \<Rightarrow> f x)"

section \<open>\<open>get_market_data\<close>: join, align and derive\<close>

definition fred_tickers :: "col list" where
  "fred_tickers = [WALCL, WTREGEN, RRPONTSYD, SOFR, IORB, T10Y2Y]"

definition yf_tickers :: "col list" where
  "yf_tickers = [GSPC, VIX, MOVE]"

text \<open>
  Lines 39 to 50 of \<open>app.py\<close>, from the two fetched frames to the returned table.
\<close>

definition transform :: "frame \<Rightarrow> frame \<Rightarrow> exn + frame" where
  "transform df_fred df_yf =
     (let df = concat_axis1 df_fred df_yf;
          df = dropna (ffill (resample_D_mean df))
      in exn_bind (getitem df WALCL) (\<lambda>walcl.
         exn_bind (getitem df WTREGEN) (\<lambda>wtregen.
         exn_bind (getitem df RRPONTSYD) (\<lambda>rrp.
         let df = setitem df Net_Liquidity
                    (series_sub (series_sub (series_div walcl 1000000) (series_div wtregen 1000))
                                (series_div rrp 1000))
         in exn_bind (getitem df SOFR) (\<lambda>sofr.
            exn_bind (getitem df IORB) (\<lambda>iorb.
            let df = setitem df Rate_Spread (series_sub sofr iorb)
            in exn_bind (getitem df Net_Liquidity) (\<lambda>nl.
               Inr (setitem df Liq_MA20 (rolling_mean 20 nl)))))))))"

section \<open>What the page shows\<close>

text \<open>
  The three outcomes of the recommendation (the texts end in \<open>(Hold)\<close>,
  \<open>(System Risk)\<close> and \<open>(Buy the Dip)\<close>) and the three status messages
  (\<open>(Normal)\<close>, \<open>(CRITICAL)\<close>, \<open>(Warning)\<close>).
\<close>

datatype action = Hold | Liquidate | BuyTheDip

datatype status = Normal | Critical | Warning

datatype message = FredFailed | LiquidityHelp | Conclusion action | Reason action

datatype chart =
    LiquidityChart series series
  | HealthChart series "string list"
  | SentimentChart series series

text \<open>
  One Streamlit call each, in the order the script makes them. The fixed texts are
  left out; \<open>Expander\<close> stands for an expander with the help text inside it. A
  metric carries its label, the value it formats, its delta when it has one, and its
  \<open>delta_color\<close>; a chart carries the series it plots.
\<close>

datatype ui =
    SetPageConfig | Title | Markdown | Spinner
  | Header nat | Subheader | Expander | Columns nat
  | StError message | StSuccess message | StInfo message
  | Metric string cell "cell option" string
  | Caption status
  | PlotlyChart chart

text \<open>
  A run of a piece of the script: what it has shown so far, and either the exception
  that ended it or its value.
\<close>

type_synonym 'a io = "ui list \<times> (exn + 'a)"

definition io_return :: "'a \<Rightarrow> 'a io" where
  "io_return x = ([], Inr x)"

definition emit :: "ui \<Rightarrow> unit io" where
  "emit e = ([e], Inr ())"

definition emits :: "ui list \<Rightarrow> unit io" where
  "emits es = (es, Inr ())"

definition raise_or :: "exn + 'a \<Rightarrow> 'a io" where
  "raise_or m = ([], m)"

definition io_bind :: "'a io \<Rightarrow> ('a \<Rightarrow> 'b io) \<Rightarrow> 'b io" where
  "io_bind m f =
     (case m of
        (es, Inl e) \<Rightarrow> (es, Inl e)
      | (es, Inr x) \<Rightarrow> (case f x of (es', r) \<Rightarrow> (es @ es', r)))"

definition io_then :: "unit io \<Rightarrow> 'b io \<Rightarrow> 'b io" where
  "io_then m k = io_bind m (\<lambda>_. k)"

section \<open>The presenter\<close>

text \<open>Lines 92 to 99: the status of the current spread, message and colour together.\<close>

definition status_of :: "cell \<Rightarrow> status \<times> string" where
  "status_of spread_val =
     (if cell_ge spread_val 0.05 then (Critical, ''inverse'')
      else if cell_gt spread_val 0 then (Warning, ''normal'')
      else (Normal, ''off''))"

definition status_msg :: "cell \<Rightarrow> status" where
  "status_msg spread_val = fst (status_of spread_val)"

definition status_color :: "cell \<Rightarrow> string" where
  "status_color spread_val = snd (status_of spread_val)"

text \<open>Line 105: the nested \<open>np.where\<close>, element by element.\<close>

definition colors :: "series \<Rightarrow> string list" where
  "colors spread =
     map (\<lambda>x. if cell_ge x 0.05 then ''red'' else if cell_gt x 0 then ''yellow'' else ''green'')
         spread"

text \<open>Line 67, with \<open>last_row\<close> and \<open>prev_row\<close> for the script's \<open>last\<close> and \<open>prev\<close>.\<close>

definition liq_diff :: "pyrow \<Rightarrow> pyrow \<Rightarrow> exn + cell" where
  "liq_diff last_row prev_row =
     exn_bind (row_get last_row Net_Liquidity) (\<lambda>a.
     exn_bind (row_get prev_row Net_Liquidity) (\<lambda>b.
     Inr (cell_sub a b)))"

text \<open>
  Lines 148 to 162: the recommendation, its reason, and what the branch shows.
\<close>

definition recommendation :: "cell \<Rightarrow> cell \<Rightarrow> cell \<Rightarrow> action \<times> ui list" where
  "recommendation spread_val vix_val liq_diff_val =
     (if cell_ge spread_val 0.05
        then (Liquidate, [StError (Conclusion Liquidate), StError (Reason Liquidate)])
      else if cell_ge vix_val 25 \<and> cell_gt liq_diff_val 0
        then (BuyTheDip, [StSuccess (Conclusion BuyTheDip), StInfo (Reason BuyTheDip)])
      else (Hold, [StInfo (Conclusion Hold)]))"

definition final_action :: "cell \<Rightarrow> cell \<Rightarrow> cell \<Rightarrow> action" where
  "final_action spread_val vix_val liq_diff_val =
     fst (recommendation spread_val vix_val liq_diff_val)"

text \<open>Lines 55 to 162, statement by statement.\<close>

definition presenter :: "frame \<Rightarrow> unit io" where
  "presenter df =
     io_bind (raise_or (iloc df (- 1))) (\<lambda>last_row.
     io_bind (raise_or (iloc df (- 5))) (\<lambda>prev_row.
     io_then (emits [Header 1, StInfo LiquidityHelp, Columns 3]) (
     io_bind (raise_or (liq_diff last_row prev_row)) (\<lambda>liq_diff_val.
     io_bind (raise_or (row_get last_row Net_Liquidity)) (\<lambda>last_nl.
     io_then (emit (Metric ''Net Liquidity'' last_nl (Some liq_diff_val) ''normal'')) (
     io_bind (raise_or (row_get last_row WTREGEN)) (\<lambda>tga.
     io_then (emit (Metric ''TGA'' (cell_div tga 1000) None ''normal'')) (
     io_bind (raise_or (row_get last_row RRPONTSYD)) (\<lambda>rrp.
     io_then (emit (Metric ''RRP'' (cell_div rrp 1000) None ''normal'')) (
     io_bind (raise_or (getitem df Net_Liquidity)) (\<lambda>nl.
     io_bind (raise_or (getitem df GSPC)) (\<lambda>gspc.
     io_then (emits [PlotlyChart (LiquidityChart nl gspc), Markdown, Header 2, Expander]) (
     io_bind (raise_or (row_get last_row Rate_Spread)) (\<lambda>spread_val.
     io_then (emits [Metric ''SOFR - IORB'' spread_val None (status_color spread_val),
                     Caption (status_msg spread_val)]) (
     io_bind (raise_or (getitem df Rate_Spread)) (\<lambda>spread.
     io_then (emits [PlotlyChart (HealthChart spread (colors spread)),
                     Markdown, Header 3, Expander]) (
     io_bind (raise_or (row_get last_row VIX)) (\<lambda>vix_val.
     io_bind (raise_or (row_get last_row MOVE)) (\<lambda>move_val.
     io_then (emits [Columns 2, Metric ''VIX'' vix_val None ''normal'',
                     Metric ''MOVE'' move_val None ''normal'']) (
     io_bind (raise_or (getitem df VIX)) (\<lambda>vix.
     io_bind (raise_or (getitem df MOVE)) (\<lambda>move.
     io_then (emits [PlotlyChart (SentimentChart vix move), Markdown, Subheader]) (
     emits (snd (recommendation spread_val vix_val liq_diff_val)))))))))))))))))))))))))"

section \<open>The script\<close>

text \<open>
  Lines 21 to 50. The two provider calls are the script's inputs: each either raises
  an exception (\<open>Inl\<close>) or returns its frame. The macro call sits in a bare
  \<open>try/except\<close>; the market call, made only after the macro call has returned, sits
  in none. The function is memoised for an hour by \<open>st.cache_data\<close>; this is one
  call that is not answered from the cache.
\<close>

definition get_market_data :: "exn + frame \<Rightarrow> exn + frame \<Rightarrow> frame option io" where
  "get_market_data get_data_fred yf_download =
     io_then (emit Spinner)
       (case get_data_fred of
          Inl e \<Rightarrow> io_then (emit (StError FredFailed)) (io_return None)
        | Inr df_fred \<Rightarrow>
            io_bind (raise_or yf_download) (\<lambda>df_yf.
            io_bind (raise_or (transform df_fred df_yf)) (\<lambda>df.
            io_return (Some df))))"

text \<open>The whole render pass: lines 13 to 15, the fetch, and the guarded presenter.\<close>

definition app :: "exn + frame \<Rightarrow> exn + frame \<Rightarrow> unit io" where
  "app get_data_fred yf_download =
     io_then (emits [SetPageConfig, Title, Markdown]) (
     io_bind (get_market_data get_data_fred yf_download) (\<lambda>df.
     case df of None \<Rightarrow> io_return () | Some df \<Rightarrow> presenter df))"

text \<open>What a run drew, and whether it ended in an exception nobody caught.\<close>

fun is_chart :: "ui \<Rightarrow> bool" where
  "is_chart (PlotlyChart c) = True"
| "is_chart _ = False"

fun is_error_message :: "ui \<Rightarrow> bool" where
  "is_error_message (StError m) = True"
| "is_error_message _ = False"

definition shown :: "'a io \<Rightarrow> ui list" where
  "shown run = fst run"

definition crashed :: "'a io \<Rightarrow> bool" where
  "crashed run = isl (snd run)"

section \<open>Fetched panels\<close>

text \<open>
  A provider returns the columns it was asked for, one row per observation time, in
  ascending order of time, every column as long as the index.
\<close>

definition valid_panel :: "col list \<Rightarrow> frame \<Rightarrow> bool" where
  "valid_panel tickers df \<longleftrightarrow>
     columns df = tickers \<and> sorted_wrt (<) (index df)
     \<and> list_all (\<lambda>(c, s). length s = length (index df)) (data df)"

section \<open>Auxiliary notions and example inputs\<close>

text \<open>The table of line 40, before the derived columns are added.\<close>

definition aligned :: "frame \<Rightarrow> frame \<Rightarrow> frame" where
  "aligned a b = dropna (ffill (resample_D_mean (concat_axis1 a b)))"

text \<open>The right-hand side of line 44 on three series.\<close>

definition net_liquidity :: "series \<Rightarrow> series \<Rightarrow> series \<Rightarrow> series" where
  "net_liquidity walcl wtregen rrp =
     series_sub (series_sub (series_div walcl 1000000) (series_div wtregen 1000))
                (series_div rrp 1000)"

text \<open>
  Six consecutive days on which only the balance sheet moves: net liquidity is
  1, 2, 3, 4, 5, 6 (trillions). \<open>week_table\<close> is the table these panels give.
\<close>

definition week_fred :: frame where
  "week_fred =
     \<lparr>index = [0, 86400, 172800, 259200, 345600, 432000],
      data = [(WALCL, [Val 2000000, Val 3000000, Val 4000000, Val 5000000, Val 6000000, Val 7000000]),
              (WTREGEN, [Val 500, Val 500, Val 500, Val 500, Val 500, Val 500]),
              (RRPONTSYD, [Val 500, Val 500, Val 500, Val 500, Val 500, Val 500]),
              (SOFR, [Val 5.25, Val 5.25, Val 5.25, Val 5.25, Val 5.25, Val 5.25]),
              (IORB, [Val 5.5, Val 5.5, Val 5.5, Val 5.5, Val 5.5, Val 5.5]),
              (T10Y2Y, [Val 0.5, Val 0.5, Val 0.5, Val 0.5, Val 0.5, Val 0.5])]\<rparr>"

definition week_yf :: frame where
  "week_yf =
     \<lparr>index = [0, 86400, 172800, 259200, 345600, 432000],
      data = [(GSPC, [Val 5000, Val 5000, Val 5000, Val 5000, Val 5000, Val 5000]),
              (VIX, [Val 15, Val 15, Val 15, Val 15, Val 15, Val 15]),
              (MOVE, [Val 100, Val 100, Val 100, Val 100, Val 100, Val 100])]\<rparr>"

definition week_table :: frame where
  "week_table =
     \<lparr>index = [0, 86400, 172800, 259200, 345600, 432000],
      data = [(WALCL, [Val 2000000, Val 3000000, Val 4000000, Val 5000000, Val 6000000, Val 7000000]),
              (WTREGEN, [Val 500, Val 500, Val 500, Val 500, Val 500, Val 500]),
              (RRPONTSYD, [Val 500, Val 500, Val 500, Val 500, Val 500, Val 500]),
              (SOFR, [Val 5.25, Val 5.25, Val 5.25, Val 5.25, Val 5.25, Val 5.25]),
              (IORB, [Val 5.5, Val 5.5, Val 5.5, Val 5.5, Val 5.5, Val 5.5]),
              (T10Y2Y, [Val 0.5, Val 0.5, Val 0.5, Val 0.5, Val 0.5, Val 0.5]),
              (GSPC, [Val 5000, Val 5000, Val 5000, Val 5000, Val 5000, Val 5000]),
              (VIX, [Val 15, Val 15, Val 15, Val 15, Val 15, Val 15]),
              (MOVE, [Val 100, Val 100, Val 100, Val 100, Val 100, Val 100]),
              (Net_Liquidity, [Val 1, Val 2, Val 3, Val 4, Val 5, Val 6]),
              (Rate_Spread, [Val (- 0.25), Val (- 0.25), Val (- 0.25), Val (- 0.25), Val (- 0.25),
                             Val (- 0.25)]),
              (Liq_MA20, [NaN, NaN, NaN, NaN, NaN, NaN])]\<rparr>"



section \<open>Properties of the operations\<close>

subsection \<open>Columns and lengths through the alignment\<close>

lemma columns_concat: "columns (concat_axis1 a b) = columns a @ columns b"
  by (simp add: concat_axis1_def columns_def Let_def case_prod_unfold comp_def)

lemma columns_resample: "columns (resample_D_mean df) = columns df"
  by (simp add: resample_D_mean_def columns_def Let_def case_prod_unfold comp_def)

lemma columns_ffill: "columns (ffill df) = columns df"
  by (simp add: ffill_def columns_def case_prod_unfold comp_def)

lemma columns_dropna: "columns (dropna df) = columns df"
  by (simp add: dropna_def columns_def Let_def case_prod_unfold comp_def)

lemma columns_aligned: "columns (aligned a b) = columns a @ columns b"
  by (simp add: aligned_def columns_dropna columns_ffill columns_resample columns_concat)

lemma dropna_column:
  assumes "(c, s) \<in> set (data (dropna df))"
  shows "length s = length (index (dropna df)) \<and> NaN \<notin> set s"
proof -
  define keep where "keep = filter (complete_row df) [0..<length (index df)]"
  from assms obtain s0 where s0: "(c, s0) \<in> set (data df)" and s: "s = map (\<lambda>i. s0 ! i) keep"
    by (auto simp add: dropna_def Let_def keep_def)
  have "s0 ! i \<noteq> NaN" if "i \<in> set keep" for i
  proof -
    from that have "complete_row df i" by (simp add: keep_def)
    with s0 show ?thesis by (auto simp add: complete_row_def list_all_iff)
  qed
  then have "NaN \<notin> set s" by (auto simp add: s image_iff) metis
  moreover have "length s = length (index (dropna df))"
    by (simp add: s dropna_def Let_def keep_def)
  ultimately show ?thesis by simp
qed

lemma getitem_columns:
  assumes "c \<in> set (columns df)"
  obtains s where "getitem df c = Inr s" "(c, s) \<in> set (data df)"
proof -
  from assms have "map_of (data df) c \<noteq> None"
    by (simp add: columns_def map_of_eq_None_iff)
  then obtain s where "map_of (data df) c = Some s" by blast
  then have "getitem df c = Inr s" "(c, s) \<in> set (data df)"
    by (simp_all add: getitem_def map_of_SomeD)
  then show ?thesis by (rule that)
qed

lemma getitem_aligned:
  assumes "c \<in> set (columns a @ columns b)"
  obtains s where "getitem (aligned a b) c = Inr s"
    "length s = length (index (aligned a b))" "NaN \<notin> set s"
proof -
  from assms have "c \<in> set (columns (aligned a b))" by (simp add: columns_aligned)
  then obtain s where s: "getitem (aligned a b) c = Inr s" "(c, s) \<in> set (data (aligned a b))"
    by (rule getitem_columns)
  from s(2) have "length s = length (index (aligned a b)) \<and> NaN \<notin> set s"
    unfolding aligned_def by (rule dropna_column)
  with s(1) show ?thesis by (auto intro: that)
qed

subsection \<open>Assigning a column\<close>

lemma map_of_set_col: "map_of (set_col c s kvs) = (map_of kvs)(c \<mapsto> s)"
  by (induction kvs) (auto simp add: fun_eq_iff)

lemma keys_set_col:
  "map fst (set_col c s kvs) = (if c \<in> set (map fst kvs) then map fst kvs else map fst kvs @ [c])"
  by (induction kvs) (force simp add: image_iff)+

lemma getitem_setitem: "getitem (setitem df c s) k = (if k = c then Inr s else getitem df k)"
  by (simp add: getitem_def setitem_def map_of_set_col)

lemma index_setitem: "index (setitem df c s) = index df"
  by (simp add: setitem_def)

lemma columns_setitem:
  "columns (setitem df c s) = (if c \<in> set (columns df) then columns df else columns df @ [c])"
  by (simp add: columns_def setitem_def keys_set_col)

subsection \<open>Series arithmetic, cell by cell\<close>

lemma length_series_div: "length (series_div s k) = length s"
  by (simp add: series_div_def)

lemma length_series_sub: "length (series_sub a b) = min (length a) (length b)"
  by (simp add: series_sub_def)

lemma nth_series_div: "i < length s \<Longrightarrow> series_div s k ! i = cell_div (s ! i) k"
  by (simp add: series_div_def)

lemma nth_series_sub:
  "i < length a \<Longrightarrow> i < length b \<Longrightarrow> series_sub a b ! i = cell_sub (a ! i) (b ! i)"
  by (simp add: series_sub_def)

lemma no_nan_nth:
  assumes "NaN \<notin> set s" "i < length s"
  obtains x where "s ! i = Val x"
  using assms by (cases "s ! i") (auto dest: nth_mem)

lemma length_net_liquidity:
  "length (net_liquidity w g p) = min (min (length w) (length g)) (length p)"
  by (simp add: net_liquidity_def length_series_sub length_series_div)

lemma nth_net_liquidity:
  assumes "i < length w" "i < length g" "i < length p"
    and "w ! i = Val x" "g ! i = Val y" "p ! i = Val z"
  shows "net_liquidity w g p ! i = Val (x / 1000000 - y / 1000 - z / 1000)"
  using assms
  by (simp add: net_liquidity_def nth_series_sub nth_series_div length_series_sub length_series_div)

subsection \<open>The rolling mean of a series without gaps\<close>

lemma vals_map_Val: "vals (map Val xs) = xs"
  by (induction xs) auto

lemma map_Val_vals: "NaN \<notin> set s \<Longrightarrow> map Val (vals s) = s"
proof (induction s)
  case Nil
  then show ?case by simp
next
  case (Cons x s)
  then show ?case by (cases x) auto
qed

lemma length_rolling_mean: "length (rolling_mean w s) = length s"
  by (simp add: rolling_mean_def)

lemma sum_list_window:
  "b \<le> length xs \<Longrightarrow> sum_list (drop a (take b xs)) = (\<Sum>k = a..<b. (xs ! k :: real))"
proof (cases "a \<le> b")
  case True
  assume b: "b \<le> length xs"
  have "sum_list (drop a (take b xs)) = (\<Sum>i = 0..<b - a. drop a (take b xs) ! i)"
    using b by (simp add: sum_list_sum_nth)
  also have "\<dots> = (\<Sum>i = 0..<b - a. xs ! (i + a))"
    using b True by (intro sum.cong) (auto simp add: add.commute)
  also have "\<dots> = (\<Sum>k = 0 + a..<(b - a) + a. xs ! k)"
    by (rule sum.shift_bounds_nat_ivl [symmetric])
  finally show ?thesis using True by simp
next
  case False
  then show ?thesis by simp
qed

lemma nth_rolling_mean:
  assumes "i < length xs" "0 < w"
  shows "rolling_mean w (map Val xs) ! i =
     (if Suc i < w then NaN else Val ((\<Sum>k = Suc i - w..<Suc i. xs ! k) / real w))"
proof -
  have win: "vals (drop (Suc i - w) (take (Suc i) (map Val xs))) = drop (Suc i - w) (take (Suc i) xs)"
    by (simp add: take_map drop_map vals_map_Val)
  have len: "length (drop (Suc i - w) (take (Suc i) xs)) = min (Suc i) w"
    using assms by auto
  show ?thesis
    using assms by (auto simp add: rolling_mean_def win len sum_list_window min_def)
qed

subsection \<open>The returned table\<close>

lemma transform_result:
  assumes "columns a = fred_tickers" "columns b = yf_tickers"
  obtains w g p so io where
    "getitem (aligned a b) WALCL = Inr w" "length w = length (index (aligned a b))" "NaN \<notin> set w"
    "getitem (aligned a b) WTREGEN = Inr g" "length g = length (index (aligned a b))" "NaN \<notin> set g"
    "getitem (aligned a b) RRPONTSYD = Inr p" "length p = length (index (aligned a b))" "NaN \<notin> set p"
    "getitem (aligned a b) SOFR = Inr so" "length so = length (index (aligned a b))" "NaN \<notin> set so"
    "getitem (aligned a b) IORB = Inr io" "length io = length (index (aligned a b))" "NaN \<notin> set io"
    "transform a b =
       Inr (setitem (setitem (setitem (aligned a b) Net_Liquidity (net_liquidity w g p))
                             Rate_Spread (series_sub so io))
                    Liq_MA20 (rolling_mean 20 (net_liquidity w g p)))"
proof -
  have mem: "WALCL \<in> set (columns a @ columns b)" "WTREGEN \<in> set (columns a @ columns b)"
    "RRPONTSYD \<in> set (columns a @ columns b)" "SOFR \<in> set (columns a @ columns b)"
    "IORB \<in> set (columns a @ columns b)"
    by (simp_all add: assms fred_tickers_def)
  obtain w where w: "getitem (aligned a b) WALCL = Inr w"
    "length w = length (index (aligned a b))" "NaN \<notin> set w"
    using mem(1) by (rule getitem_aligned)
  obtain g where g: "getitem (aligned a b) WTREGEN = Inr g"
    "length g = length (index (aligned a b))" "NaN \<notin> set g"
    using mem(2) by (rule getitem_aligned)
  obtain p where p: "getitem (aligned a b) RRPONTSYD = Inr p"
    "length p = length (index (aligned a b))" "NaN \<notin> set p"
    using mem(3) by (rule getitem_aligned)
  obtain so where so: "getitem (aligned a b) SOFR = Inr so"
    "length so = length (index (aligned a b))" "NaN \<notin> set so"
    using mem(4) by (rule getitem_aligned)
  obtain io where io: "getitem (aligned a b) IORB = Inr io"
    "length io = length (index (aligned a b))" "NaN \<notin> set io"
    using mem(5) by (rule getitem_aligned)
  have "transform a b =
       Inr (setitem (setitem (setitem (aligned a b) Net_Liquidity (net_liquidity w g p))
                             Rate_Spread (series_sub so io))
                    Liq_MA20 (rolling_mean 20 (net_liquidity w g p)))"
    unfolding transform_def aligned_def [symmetric] Let_def
    by (simp add: exn_bind_def w(1) g(1) p(1) so(1) io(1) getitem_setitem
        net_liquidity_def [symmetric])
  with w g p so io show ?thesis by (rule that)
qed

lemma no_nan_net_liquidity:
  assumes "length w = n" "length g = n" "length p = n"
    and "NaN \<notin> set w" "NaN \<notin> set g" "NaN \<notin> set p"
  shows "NaN \<notin> set (net_liquidity w g p)"
proof
  assume "NaN \<in> set (net_liquidity w g p)"
  then obtain i where i: "i < length (net_liquidity w g p)" "net_liquidity w g p ! i = NaN"
    by (auto simp add: in_set_conv_nth)
  from i(1) assms have lt: "i < length w" "i < length g" "i < length p"
    by (simp_all add: length_net_liquidity)
  obtain x where x: "w ! i = Val x" using assms(4) lt(1) by (rule no_nan_nth)
  obtain y where y: "g ! i = Val y" using assms(5) lt(2) by (rule no_nan_nth)
  obtain z where z: "p ! i = Val z" using assms(6) lt(3) by (rule no_nan_nth)
  from nth_net_liquidity [OF lt x y z] i(2) show False by simp
qed

lemma no_nan_series_sub:
  assumes "NaN \<notin> set a" "NaN \<notin> set b"
  shows "NaN \<notin> set (series_sub a b)"
proof
  assume "NaN \<in> set (series_sub a b)"
  then obtain i where i: "i < length (series_sub a b)" "series_sub a b ! i = NaN"
    by (auto simp add: in_set_conv_nth)
  from i(1) have lt: "i < length a" "i < length b"
    by (simp_all add: length_series_sub)
  obtain x where x: "a ! i = Val x" using assms(1) lt(1) by (rule no_nan_nth)
  obtain y where y: "b ! i = Val y" using assms(2) lt(2) by (rule no_nan_nth)
  from i(2) show False by (simp add: nth_series_sub lt x y)
qed

subsection \<open>Running the presenter\<close>

lemma io_bind_Inr: "io_bind (raise_or (Inr x)) f = f x"
  by (simp add: io_bind_def raise_or_def split: prod.splits)

lemma io_bind_Inl: "io_bind (raise_or (Inl e)) f = ([], Inl e)"
  by (simp add: io_bind_def raise_or_def)

lemma iloc_neg:
  "0 < k \<Longrightarrow> k \<le> length (index df) \<Longrightarrow>
   iloc df (- int k) = Inr (map (\<lambda>(c, s). (c, s ! (length (index df) - k))) (data df))"
  by (simp add: iloc_def position_def nat_diff_distrib' of_nat_diff)

lemma iloc_neg_short:
  "length (index df) < k \<Longrightarrow> iloc df (- int k) = Inl IndexError"
  by (simp add: iloc_def position_def)

lemma row_get_iloc:
  assumes "getitem df c = Inr s"
  shows "row_get (map (\<lambda>(c, s). (c, s ! j)) (data df)) c = Inr (s ! j)"
proof -
  from assms have "map_of (data df) c = Some s"
    by (simp add: getitem_def split: option.splits)
  then show ?thesis
    by (simp add: row_get_def map_of_map)
qed

lemma io_then_shown: "io_then (es, Inr ()) k = apfst ((@) es) k"
  by (simp add: io_then_def io_bind_def split: prod.splits)

lemma io_then_emit: "io_then (emit e) k = apfst ((#) e) k"
  by (simp add: io_then_def io_bind_def emit_def split: prod.splits)

lemma presenter_run:
  assumes nl: "getitem df Net_Liquidity = Inr nl"
    and tga: "getitem df WTREGEN = Inr tga"
    and rrp: "getitem df RRPONTSYD = Inr rrp"
    and gspc: "getitem df GSPC = Inr gspc"
    and spread: "getitem df Rate_Spread = Inr spread"
    and vix: "getitem df VIX = Inr vix"
    and move: "getitem df MOVE = Inr move"
    and len: "5 \<le> length (index df)"
  shows "presenter df =
    ([Header 1, StInfo LiquidityHelp, Columns 3,
      Metric ''Net Liquidity'' (nl ! (length (index df) - 1))
             (Some (cell_sub (nl ! (length (index df) - 1)) (nl ! (length (index df) - 5)))) ''normal'',
      Metric ''TGA'' (cell_div (tga ! (length (index df) - 1)) 1000) None ''normal'',
      Metric ''RRP'' (cell_div (rrp ! (length (index df) - 1)) 1000) None ''normal'',
      PlotlyChart (LiquidityChart nl gspc), Markdown, Header 2, Expander,
      Metric ''SOFR - IORB'' (spread ! (length (index df) - 1)) None
             (status_color (spread ! (length (index df) - 1))),
      Caption (status_msg (spread ! (length (index df) - 1))),
      PlotlyChart (HealthChart spread (colors spread)), Markdown, Header 3, Expander,
      Columns 2,
      Metric ''VIX'' (vix ! (length (index df) - 1)) None ''normal'',
      Metric ''MOVE'' (move ! (length (index df) - 1)) None ''normal'',
      PlotlyChart (SentimentChart vix move), Markdown, Subheader]
     @ snd (recommendation (spread ! (length (index df) - 1)) (vix ! (length (index df) - 1))
              (cell_sub (nl ! (length (index df) - 1)) (nl ! (length (index df) - 5)))),
     Inr ())"
proof -
  define n where "n = length (index df)"
  define last_row where "last_row = map (\<lambda>(c, s). (c, s ! (n - 1))) (data df)"
  define prev_row where "prev_row = map (\<lambda>(c, s). (c, s ! (n - 5))) (data df)"
  have l1: "iloc df (- 1) = Inr last_row"
    using iloc_neg [of 1 df] len by (simp add: last_row_def n_def)
  have l5: "iloc df (- 5) = Inr prev_row"
    using iloc_neg [of 5 df] len by (simp add: prev_row_def n_def)
  have r: "row_get last_row Net_Liquidity = Inr (nl ! (n - 1))"
    "row_get prev_row Net_Liquidity = Inr (nl ! (n - 5))"
    "row_get last_row WTREGEN = Inr (tga ! (n - 1))"
    "row_get last_row RRPONTSYD = Inr (rrp ! (n - 1))"
    "row_get last_row Rate_Spread = Inr (spread ! (n - 1))"
    "row_get last_row VIX = Inr (vix ! (n - 1))"
    "row_get last_row MOVE = Inr (move ! (n - 1))"
    unfolding last_row_def prev_row_def
    by (simp_all add: row_get_iloc [OF nl] row_get_iloc [OF tga] row_get_iloc [OF rrp]
        row_get_iloc [OF spread] row_get_iloc [OF vix] row_get_iloc [OF move])
  have d: "liq_diff last_row prev_row = Inr (cell_sub (nl ! (n - 1)) (nl ! (n - 5)))"
    by (simp add: liq_diff_def exn_bind_def r)
  show ?thesis
    unfolding n_def [symmetric]
    by (simp add: presenter_def l1 l5 d r nl gspc spread vix move io_bind_Inr
        io_then_shown io_then_emit emits_def)
qed



lemma presenter_short:
  assumes "length (index df) < 5"
  shows "presenter df = ([], Inl IndexError)"
proof (cases "index df = []")
  case True
  then have "iloc df (- 1) = Inl IndexError" by (simp add: iloc_def position_def)
  then show ?thesis by (simp add: presenter_def io_bind_Inl)
next
  case False
  then have l1: "iloc df (- 1) = Inr (map (\<lambda>(c, s). (c, s ! (length (index df) - 1))) (data df))"
    using iloc_neg [of 1 df] by (simp add: Suc_leI)
  have l5: "iloc df (- 5) = Inl IndexError"
    using iloc_neg_short [of df 5] assms by simp
  show ?thesis by (simp add: presenter_def l1 l5 io_bind_Inr io_bind_Inl)
qed

lemma app_fred_raises:
  "app (Inl e) yf = ([SetPageConfig, Title, Markdown, Spinner, StError FredFailed], Inr ())"
  by (simp add: app_def get_market_data_def io_then_def io_bind_def emits_def emit_def io_return_def)

lemma app_yf_raises:
  "app (Inr a) (Inl e) = ([SetPageConfig, Title, Markdown, Spinner], Inl e)"
  by (simp add: app_def get_market_data_def io_then_def io_bind_def emits_def emit_def io_return_def raise_or_def)

lemma app_returns:
  "transform a b = Inr df \<Longrightarrow>
   app (Inr a) (Inr b) = apfst ((@) [SetPageConfig, Title, Markdown, Spinner]) (presenter df)"
  by (simp add: app_def get_market_data_def io_then_def io_bind_def emits_def emit_def
      io_return_def raise_or_def split: prod.splits)

lemma transform_table:
  assumes "columns a = fred_tickers" "columns b = yf_tickers"
  obtains df w g p so io where
    "transform a b = Inr df"
    "index df = index (aligned a b)"
    "columns df = fred_tickers @ yf_tickers @ [Net_Liquidity, Rate_Spread, Liq_MA20]"
    "getitem df WALCL = Inr w" "length w = length (index df)" "NaN \<notin> set w"
    "getitem df WTREGEN = Inr g" "length g = length (index df)" "NaN \<notin> set g"
    "getitem df RRPONTSYD = Inr p" "length p = length (index df)" "NaN \<notin> set p"
    "getitem df SOFR = Inr so" "length so = length (index df)" "NaN \<notin> set so"
    "getitem df IORB = Inr io" "length io = length (index df)" "NaN \<notin> set io"
    "getitem df Net_Liquidity = Inr (net_liquidity w g p)"
    "getitem df Rate_Spread = Inr (series_sub so io)"
    "getitem df Liq_MA20 = Inr (rolling_mean 20 (net_liquidity w g p))"
    "\<And>c. c \<in> set (fred_tickers @ yf_tickers) \<Longrightarrow>
        \<exists>s. getitem df c = Inr s \<and> length s = length (index df) \<and> NaN \<notin> set s"
proof -
  obtain w g p so io where r:
    "getitem (aligned a b) WALCL = Inr w" "length w = length (index (aligned a b))" "NaN \<notin> set w"
    "getitem (aligned a b) WTREGEN = Inr g" "length g = length (index (aligned a b))" "NaN \<notin> set g"
    "getitem (aligned a b) RRPONTSYD = Inr p" "length p = length (index (aligned a b))" "NaN \<notin> set p"
    "getitem (aligned a b) SOFR = Inr so" "length so = length (index (aligned a b))" "NaN \<notin> set so"
    "getitem (aligned a b) IORB = Inr io" "length io = length (index (aligned a b))" "NaN \<notin> set io"
    "transform a b =
       Inr (setitem (setitem (setitem (aligned a b) Net_Liquidity (net_liquidity w g p))
                             Rate_Spread (series_sub so io))
                    Liq_MA20 (rolling_mean 20 (net_liquidity w g p)))"
    using assms by (rule transform_result)
  define df where "df = setitem (setitem (setitem (aligned a b) Net_Liquidity (net_liquidity w g p))
                             Rate_Spread (series_sub so io))
                    Liq_MA20 (rolling_mean 20 (net_liquidity w g p))"
  have ix: "index df = index (aligned a b)"
    by (simp add: df_def index_setitem)
  have cs: "columns df = fred_tickers @ yf_tickers @ [Net_Liquidity, Rate_Spread, Liq_MA20]"
    by (simp add: df_def columns_setitem columns_aligned assms fred_tickers_def yf_tickers_def)
  have old: "getitem df c = getitem (aligned a b) c" if "c \<in> set (fred_tickers @ yf_tickers)" for c
    using that by (auto simp add: df_def getitem_setitem fred_tickers_def yf_tickers_def)
  have tick: "\<exists>s. getitem df c = Inr s \<and> length s = length (index df) \<and> NaN \<notin> set s"
    if c: "c \<in> set (fred_tickers @ yf_tickers)" for c
  proof -
    from c have "c \<in> set (columns a @ columns b)" by (simp add: assms)
    then obtain s where "getitem (aligned a b) c = Inr s"
      "length s = length (index (aligned a b))" "NaN \<notin> set s"
      by (rule getitem_aligned)
    then show ?thesis by (simp add: old [OF c] ix)
  qed
  show ?thesis
  proof (rule that [of df w g p so io])
    show "transform a b = Inr df" by (simp add: r df_def)
    show "index df = index (aligned a b)" by (rule ix)
    show "columns df = fred_tickers @ yf_tickers @ [Net_Liquidity, Rate_Spread, Liq_MA20]" by (rule cs)
    show "getitem df WALCL = Inr w" by (simp add: old fred_tickers_def r)
    show "getitem df WTREGEN = Inr g" by (simp add: old fred_tickers_def r)
    show "getitem df RRPONTSYD = Inr p" by (simp add: old fred_tickers_def r)
    show "getitem df SOFR = Inr so" by (simp add: old fred_tickers_def r)
    show "getitem df IORB = Inr io" by (simp add: old fred_tickers_def r)
    show "length w = length (index df)" "length g = length (index df)"
      "length p = length (index df)" "length so = length (index df)"
      "length io = length (index df)"
      by (simp_all add: ix r)
    show "NaN \<notin> set w" "NaN \<notin> set g" "NaN \<notin> set p" "NaN \<notin> set so" "NaN \<notin> set io"
      by (fact r)+
    show "getitem df Net_Liquidity = Inr (net_liquidity w g p)"
      by (simp add: df_def getitem_setitem)
    show "getitem df Rate_Spread = Inr (series_sub so io)"
      by (simp add: df_def getitem_setitem)
    show "getitem df Liq_MA20 = Inr (rolling_mean 20 (net_liquidity w g p))"
      by (simp add: df_def getitem_setitem)
    show "\<exists>s. getitem df c = Inr s \<and> length s = length (index df) \<and> NaN \<notin> set s"
      if "c \<in> set (fred_tickers @ yf_tickers)" for c
      using that by (rule tick)
  qed
qed

subsection \<open>The rolling mean of net liquidity\<close>

lemma net_liquidity_values:
  assumes "length w = n" "length g = n" "length p = n"
    and "NaN \<notin> set w" "NaN \<notin> set g" "NaN \<notin> set p"
  shows "net_liquidity w g p = map Val (vals (net_liquidity w g p))"
    and "length (vals (net_liquidity w g p)) = n"
proof -
  have "NaN \<notin> set (net_liquidity w g p)"
    using assms by (rule no_nan_net_liquidity)
  then show a: "net_liquidity w g p = map Val (vals (net_liquidity w g p))"
    by (simp add: map_Val_vals)
  have "length (map Val (vals (net_liquidity w g p))) = n"
    unfolding a [symmetric] using assms by (simp add: length_net_liquidity)
  then show "length (vals (net_liquidity w g p)) = n" by simp
qed

lemma liq_ma20_cells:
  assumes "length w = n" "length g = n" "length p = n"
    and "NaN \<notin> set w" "NaN \<notin> set g" "NaN \<notin> set p"
    and "i < n"
  shows "rolling_mean 20 (net_liquidity w g p) ! i =
     (if i < 19 then NaN
      else Val ((\<Sum>k = i - 19..i. vals (net_liquidity w g p) ! k) / 20))"
proof -
  let ?xs = "vals (net_liquidity w g p)"
  have xs: "net_liquidity w g p = map Val ?xs" "length ?xs = n"
    using assms(1-6) by (rule net_liquidity_values)+
  have "rolling_mean 20 (map Val ?xs) ! i =
     (if Suc i < 20 then NaN else Val ((\<Sum>k = Suc i - 20..<Suc i. ?xs ! k) / real 20))"
    using assms(7) xs(2) by (intro nth_rolling_mean) simp_all
  moreover have "{Suc i - 20..<Suc i} = {i - 19..i}" by auto
  ultimately show ?thesis
    using xs(1) by simp
qed

subsection \<open>The example inputs, evaluated\<close>

lemma valid_panel_columns: "valid_panel tickers df \<Longrightarrow> columns df = tickers"
  by (simp add: valid_panel_def)

lemma valid_week: "valid_panel fred_tickers week_fred" "valid_panel yf_tickers week_yf"
  by code_simp+


lemma transform_week: "transform week_fred week_yf = Inr week_table"
  by code_simp


lemma getitem_week_table:
  "getitem week_table Net_Liquidity = Inr [Val 1, Val 2, Val 3, Val 4, Val 5, Val 6]"
  "getitem week_table WALCL =
     Inr [Val 2000000, Val 3000000, Val 4000000, Val 5000000, Val 6000000, Val 7000000]"
  "getitem week_table WTREGEN = Inr [Val 500, Val 500, Val 500, Val 500, Val 500, Val 500]"
  "getitem week_table RRPONTSYD = Inr [Val 500, Val 500, Val 500, Val 500, Val 500, Val 500]"
  "getitem week_table SOFR = Inr [Val 5.25, Val 5.25, Val 5.25, Val 5.25, Val 5.25, Val 5.25]"
  "getitem week_table IORB = Inr [Val 5.5, Val 5.5, Val 5.5, Val 5.5, Val 5.5, Val 5.5]"
  "getitem week_table GSPC = Inr [Val 5000, Val 5000, Val 5000, Val 5000, Val 5000, Val 5000]"
  "getitem week_table VIX = Inr [Val 15, Val 15, Val 15, Val 15, Val 15, Val 15]"
  "getitem week_table MOVE = Inr [Val 100, Val 100, Val 100, Val 100, Val 100, Val 100]"
  "getitem week_table Rate_Spread =
     Inr [Val (- 0.25), Val (- 0.25), Val (- 0.25), Val (- 0.25), Val (- 0.25), Val (- 0.25)]"
  "getitem week_table Liq_MA20 = Inr [NaN, NaN, NaN, NaN, NaN, NaN]"
  "length (index week_table) = 6"
  by (simp_all add: getitem_def week_table_def)

lemma row_reads_week_table:
  "exn_bind (iloc week_table (- 1)) (\<lambda>r. row_get r Net_Liquidity) = Inr (Val 6)"
  "exn_bind (iloc week_table (- 5)) (\<lambda>r. row_get r Net_Liquidity) = Inr (Val 2)"
  "exn_bind (iloc week_table 0) (\<lambda>r. row_get r Net_Liquidity) = Inr (Val 1)"
  by (simp_all add: iloc_def position_def week_table_def exn_bind_def row_get_def)

lemma presenter_week_table:
  "presenter week_table =
    ([Header 1, StInfo LiquidityHelp, Columns 3,
      Metric ''Net Liquidity'' (Val 6) (Some (Val 4)) ''normal'',
      Metric ''TGA'' (Val 0.5) None ''normal'',
      Metric ''RRP'' (Val 0.5) None ''normal'',
      PlotlyChart (LiquidityChart [Val 1, Val 2, Val 3, Val 4, Val 5, Val 6]
                     [Val 5000, Val 5000, Val 5000, Val 5000, Val 5000, Val 5000]),
      Markdown, Header 2, Expander,
      Metric ''SOFR - IORB'' (Val (- 0.25)) None ''off'',
      Caption Normal,
      PlotlyChart (HealthChart
          [Val (- 0.25), Val (- 0.25), Val (- 0.25), Val (- 0.25), Val (- 0.25), Val (- 0.25)]
          [''green'', ''green'', ''green'', ''green'', ''green'', ''green'']),
      Markdown, Header 3, Expander, Columns 2,
      Metric ''VIX'' (Val 15) None ''normal'',
      Metric ''MOVE'' (Val 100) None ''normal'',
      PlotlyChart (SentimentChart [Val 15, Val 15, Val 15, Val 15, Val 15, Val 15]
                     [Val 100, Val 100, Val 100, Val 100, Val 100, Val 100]),
      Markdown, Subheader, StInfo (Conclusion Hold)],
     Inr ())"
proof -
  have "5 \<le> length (index week_table)" by (simp add: getitem_week_table)
  from presenter_run [OF getitem_week_table(1) getitem_week_table(3) getitem_week_table(4)
      getitem_week_table(7) getitem_week_table(10) getitem_week_table(8) getitem_week_table(9) this]
  show ?thesis
    by (simp add: getitem_week_table status_color_def status_msg_def status_of_def colors_def
        recommendation_def)
qed

section \<open>The claims\<close>

subsection \<open>The recommendation rule\<close>

text \<open>
  Claim C1. The recommendation depends on the spread, the fear index and the liquidity
  delta only, and is decided in a fixed order: a spread of at least 0.05 gives
  "liquidate" whatever the other two are (numbers or missing); below that, a fear index
  of at least 25 together with a strictly positive delta gives "buy the dip"; everything
  else gives "hold".
\<close>

theorem recommendation_priority:
  "(0.05 \<le> s \<longrightarrow> final_action (Val s) vix_val liq_diff_val = Liquidate) \<and>
   (s < 0.05 \<and> 25 \<le> v \<and> 0 < d \<longrightarrow> final_action (Val s) (Val v) (Val d) = BuyTheDip) \<and>
   (s < 0.05 \<and> \<not> (25 \<le> v \<and> 0 < d) \<longrightarrow> final_action (Val s) (Val v) (Val d) = Hold)"
  by (simp add: final_action_def recommendation_def)

theorem recommendation_priority_witness:
  "final_action (Val 0.06) (Val 12) (Val (- 3)) = Liquidate \<and>
   final_action (Val 0.05) NaN NaN = Liquidate \<and>
   final_action (Val 0.02) (Val 27) (Val 0.5) = BuyTheDip \<and>
   final_action (Val 0.02) (Val 25) (Val 0.5) = BuyTheDip \<and>
   final_action (Val 0.02) (Val 27) (Val 0) = Hold \<and>
   final_action (Val (- 0.01)) (Val 15) (Val (- 0.2)) = Hold"
  using recommendation_priority [of "0.06" "Val 12" "Val (- 3)" 0 0]
    recommendation_priority [of "0.05" NaN NaN 0 0]
    recommendation_priority [of "0.02" NaN NaN 27 "0.5"]
    recommendation_priority [of "0.02" NaN NaN 25 "0.5"]
    recommendation_priority [of "0.02" NaN NaN 27 0]
    recommendation_priority [of "- 0.01" NaN NaN 15 "- 0.2"]
  by simp

subsection \<open>The status of the spread and the colours of the bars\<close>

text \<open>
  Claim C2. The status of a spread is one of three tiers, and the tiers cut the real
  line into \<open>[0.05, \<infinity>)\<close> (critical), \<open>(0, 0.05)\<close> (warning) and
  \<open>(-\<infinity>, 0]\<close> (normal).
\<close>

theorem status_partition:
  "(status_msg (Val s) = Critical \<longleftrightarrow> 0.05 \<le> s) \<and>
   (status_msg (Val s) = Warning \<longleftrightarrow> 0 < s \<and> s < 0.05) \<and>
   (status_msg (Val s) = Normal \<longleftrightarrow> s \<le> 0)"
  by (auto simp add: status_msg_def status_of_def)

theorem status_partition_witness:
  "status_msg (Val 0.05) = Critical \<and> status_msg (Val 0.06) = Critical \<and>
   status_msg (Val 0.02) = Warning \<and> status_msg (Val 0.049) = Warning \<and>
   status_msg (Val 0) = Normal \<and> status_msg (Val (- 0.01)) = Normal"
  using status_partition [of "0.05"] status_partition [of "0.06"] status_partition [of "0.02"]
    status_partition [of "0.049"] status_partition [of 0] status_partition [of "- 0.01"]
  by simp

text \<open>
  Claim C10. The colour of every bar of the stress chart agrees with the status tier of
  the spread it shows: red exactly for critical, yellow exactly for warning, green
  exactly for normal, with the same thresholds (a missing spread is green and normal).
\<close>

theorem colors_agree_with_status:
  assumes "i < length spread"
  shows "(colors spread ! i = ''red'' \<longleftrightarrow> status_msg (spread ! i) = Critical) \<and>
         (colors spread ! i = ''yellow'' \<longleftrightarrow> status_msg (spread ! i) = Warning) \<and>
         (colors spread ! i = ''green'' \<longleftrightarrow> status_msg (spread ! i) = Normal) \<and>
         (\<forall>s. spread ! i = Val s \<longrightarrow>
            (colors spread ! i = ''red'' \<longleftrightarrow> 0.05 \<le> s) \<and>
            (colors spread ! i = ''yellow'' \<longleftrightarrow> 0 < s \<and> s < 0.05) \<and>
            (colors spread ! i = ''green'' \<longleftrightarrow> s \<le> 0))"
  using assms by (auto simp add: colors_def status_msg_def status_of_def)

theorem colors_agree_with_status_witness:
  "colors [Val 0.06, Val 0.02, Val (- 0.25), NaN, Val 0.05, Val 0] =
     [''red'', ''yellow'', ''green'', ''green'', ''red'', ''green''] \<and>
   map status_msg [Val 0.06, Val 0.02, Val (- 0.25), NaN, Val 0.05, Val 0] =
     [Critical, Warning, Normal, Normal, Critical, Normal]"
proof -
  let ?xs = "[Val 0.06, Val 0.02, Val (- 0.25), NaN, Val 0.05, Val 0]"
  have "status_msg (?xs ! 0) = Critical" "status_msg (?xs ! 1) = Warning"
    "status_msg (?xs ! 2) = Normal" "status_msg (?xs ! 3) = Normal"
    "status_msg (?xs ! 4) = Critical" "status_msg (?xs ! 5) = Normal"
    by (simp_all add: status_msg_def status_of_def)
  moreover have "length (colors ?xs) = 6" by (simp add: colors_def)
  ultimately have "colors ?xs ! 0 = ''red''" "colors ?xs ! 1 = ''yellow''" "colors ?xs ! 2 = ''green''"
    "colors ?xs ! 3 = ''green''" "colors ?xs ! 4 = ''red''" "colors ?xs ! 5 = ''green''"
    using colors_agree_with_status [of 0 ?xs] colors_agree_with_status [of 1 ?xs]
      colors_agree_with_status [of 2 ?xs] colors_agree_with_status [of 3 ?xs]
      colors_agree_with_status [of 4 ?xs] colors_agree_with_status [of 5 ?xs]
    by simp_all
  then show ?thesis
    by (simp add: colors_def status_msg_def status_of_def)
qed

subsection \<open>Failing fetches\<close>

text \<open>
  Claim C7. When the macro fetch raises, whatever the exception, \<open>get_market_data\<close>
  shows the error message and returns None; the run shows nothing after it, draws no
  chart and ends without an exception.
\<close>

theorem macro_fetch_failure:
  "get_market_data (Inl e) yf_download = ([Spinner, StError FredFailed], Inr None) \<and>
   app (Inl e) yf_download =
     ([SetPageConfig, Title, Markdown, Spinner, StError FredFailed], Inr ()) \<and>
   \<not> crashed (app (Inl e) yf_download) \<and>
   list_ex is_error_message (shown (app (Inl e) yf_download)) \<and>
   \<not> list_ex is_chart (shown (app (Inl e) yf_download))"
  by (simp add: app_fred_raises crashed_def shown_def get_market_data_def io_then_def
      io_bind_def emit_def io_return_def)

theorem macro_fetch_failure_witness:
  "app (Inl (ProviderError ''timeout'')) (Inr week_yf) =
     ([SetPageConfig, Title, Markdown, Spinner, StError FredFailed], Inr ()) \<and>
   app (Inl (ProviderError ''timeout'')) (Inl (ProviderError ''timeout'')) =
     ([SetPageConfig, Title, Markdown, Spinner, StError FredFailed], Inr ())"
  using macro_fetch_failure [of "ProviderError ''timeout''" "Inr week_yf"]
    macro_fetch_failure [of "ProviderError ''timeout''" "Inl (ProviderError ''timeout'')"]
  by simp

text \<open>
  Claim C8. When the macro fetch returns and the market fetch raises, the exception
  leaves \<open>get_market_data\<close> and ends the run: nothing catches it, no error message
  of the dashboard is shown and no chart is drawn.
\<close>

theorem market_fetch_failure:
  "get_market_data (Inr df_fred) (Inl e) = ([Spinner], Inl e) \<and>
   app (Inr df_fred) (Inl e) = ([SetPageConfig, Title, Markdown, Spinner], Inl e) \<and>
   crashed (app (Inr df_fred) (Inl e)) \<and>
   \<not> list_ex is_error_message (shown (app (Inr df_fred) (Inl e))) \<and>
   \<not> list_ex is_chart (shown (app (Inr df_fred) (Inl e)))"
  by (simp add: app_yf_raises crashed_def shown_def get_market_data_def io_then_def
      io_bind_def emit_def io_return_def raise_or_def)

theorem market_fetch_failure_witness:
  "app (Inr week_fred) (Inl (ProviderError ''timeout'')) =
     ([SetPageConfig, Title, Markdown, Spinner], Inl (ProviderError ''timeout''))"
  using market_fetch_failure [of week_fred "ProviderError ''timeout''"]
  by simp

subsection \<open>The returned table\<close>

text \<open>
  Claim C3, as amended. For valid fetched panels the returned table has the nine
  fetched columns and the three derived ones; every column other than \<open>Liq_MA20\<close>
  is as long as the index and holds no missing value; \<open>Liq_MA20\<close> is missing in
  exactly the rows at positions below 19.
\<close>

theorem no_missing_except_liq_ma20:
  assumes "valid_panel fred_tickers df_fred" "valid_panel yf_tickers df_yf"
  shows "\<exists>df.
     transform df_fred df_yf = Inr df \<and>
     columns df = fred_tickers @ yf_tickers @ [Net_Liquidity, Rate_Spread, Liq_MA20] \<and>
     (\<forall>c\<in>set (columns df). c \<noteq> Liq_MA20 \<longrightarrow>
        (\<exists>s. getitem df c = Inr s \<and> length s = length (index df) \<and> NaN \<notin> set s)) \<and>
     (\<exists>ma. getitem df Liq_MA20 = Inr ma \<and> length ma = length (index df) \<and>
        (\<forall>i<length (index df). ma ! i = NaN \<longleftrightarrow> i < 19))"
proof -
  from assms have cols: "columns df_fred = fred_tickers" "columns df_yf = yf_tickers"
    by (simp_all add: valid_panel_columns)
  from cols obtain df w g p so io where t:
    "transform df_fred df_yf = Inr df"
    "columns df = fred_tickers @ yf_tickers @ [Net_Liquidity, Rate_Spread, Liq_MA20]"
    "length w = length (index df)" "length g = length (index df)" "length p = length (index df)"
    "NaN \<notin> set w" "NaN \<notin> set g" "NaN \<notin> set p"
    "length so = length (index df)" "NaN \<notin> set so"
    "length io = length (index df)" "NaN \<notin> set io"
    "getitem df Net_Liquidity = Inr (net_liquidity w g p)"
    "getitem df Rate_Spread = Inr (series_sub so io)"
    "getitem df Liq_MA20 = Inr (rolling_mean 20 (net_liquidity w g p))"
    and tick: "\<And>c. c \<in> set (fred_tickers @ yf_tickers) \<Longrightarrow>
        \<exists>s. getitem df c = Inr s \<and> length s = length (index df) \<and> NaN \<notin> set s"
    by (rule transform_table) blast
  have nl: "\<exists>s. getitem df Net_Liquidity = Inr s \<and> length s = length (index df) \<and> NaN \<notin> set s"
    using t by (simp add: length_net_liquidity no_nan_net_liquidity [of w _ g p])
  have rs: "\<exists>s. getitem df Rate_Spread = Inr s \<and> length s = length (index df) \<and> NaN \<notin> set s"
    using t by (simp add: length_series_sub no_nan_series_sub)
  have full: "\<exists>s. getitem df c = Inr s \<and> length s = length (index df) \<and> NaN \<notin> set s"
    if "c \<in> set (columns df)" "c \<noteq> Liq_MA20" for c
  proof -
    from that have "c \<in> set (fred_tickers @ yf_tickers) \<or> c = Net_Liquidity \<or> c = Rate_Spread"
      by (auto simp add: t(2))
    with tick nl rs show ?thesis by blast
  qed
  have ma: "rolling_mean 20 (net_liquidity w g p) ! i = NaN \<longleftrightarrow> i < 19"
    if "i < length (index df)" for i
    using liq_ma20_cells [OF t(3) t(4) t(5) t(6) t(7) t(8) that] by simp
  from t(1) t(2) full t(15) ma show ?thesis
    by (auto simp add: length_rolling_mean length_net_liquidity t(3) t(4) t(5))
qed

theorem no_missing_except_liq_ma20_witness:
  "valid_panel fred_tickers week_fred \<and> valid_panel yf_tickers week_yf \<and>
   transform week_fred week_yf = Inr week_table \<and>
   (\<exists>s. getitem week_table Net_Liquidity = Inr s \<and> length s = 6 \<and> NaN \<notin> set s) \<and>
   (\<exists>ma. getitem week_table Liq_MA20 = Inr ma \<and> ma ! 5 = NaN)"
proof -
  from no_missing_except_liq_ma20 [OF valid_week]
  obtain df ma where t: "transform week_fred week_yf = Inr df"
    "columns df = fred_tickers @ yf_tickers @ [Net_Liquidity, Rate_Spread, Liq_MA20]"
    and full: "\<forall>c\<in>set (columns df). c \<noteq> Liq_MA20 \<longrightarrow>
        (\<exists>s. getitem df c = Inr s \<and> length s = length (index df) \<and> NaN \<notin> set s)"
    and ma: "getitem df Liq_MA20 = Inr ma" "\<forall>i<length (index df). ma ! i = NaN \<longleftrightarrow> i < 19"
    by blast
  from t(1) have df: "df = week_table" by (simp add: transform_week)
  have len: "length (index df) = 6" by (simp add: df getitem_week_table)
  from t(2) full have "\<exists>s. getitem df Net_Liquidity = Inr s \<and> length s = length (index df) \<and> NaN \<notin> set s"
    by simp
  moreover from ma(2) len have "ma ! 5 = NaN" by simp
  ultimately show ?thesis
    using ma(1) by (simp add: valid_week transform_week df [symmetric] len)
qed

text \<open>
  Claim C3, as stated, fails: on six days of data every row of the returned table has a
  missing value, in the column \<open>Liq_MA20\<close>.
\<close>

theorem liq_ma20_missing_in_week_table:
  "valid_panel fred_tickers week_fred \<and> valid_panel yf_tickers week_yf \<and>
   transform week_fred week_yf = Inr week_table \<and>
   Liq_MA20 \<in> set (columns week_table) \<and>
   getitem week_table Liq_MA20 = Inr [NaN, NaN, NaN, NaN, NaN, NaN]"
  by (simp add: valid_week transform_week getitem_week_table) (simp add: columns_def week_table_def)







subsection \<open>The liquidity delta\<close>

text \<open>
  Claim C4, evaluated on six days of data whose net liquidity is 1, 2, 3, 4, 5, 6:
  \<open>iloc[-1]\<close> reads 6 and \<open>iloc[-5]\<close> reads 2, the row four positions before the
  last, so the delta shown is 4; the row five positions before the last holds 1.
\<close>

theorem liq_diff_week:
  "transform week_fred week_yf = Inr week_table \<and>
   getitem week_table Net_Liquidity = Inr [Val 1, Val 2, Val 3, Val 4, Val 5, Val 6] \<and>
   exn_bind (iloc week_table (- 1)) (\<lambda>r. row_get r Net_Liquidity) = Inr (Val 6) \<and>
   exn_bind (iloc week_table (- 5)) (\<lambda>r. row_get r Net_Liquidity) = Inr (Val 2) \<and>
   shown (app (Inr week_fred) (Inr week_yf)) ! 7 =
     Metric ''Net Liquidity'' (Val 6) (Some (Val 4)) ''normal''"
  by (simp add: transform_week getitem_week_table row_reads_week_table
      app_returns [OF transform_week] presenter_week_table shown_def)

end
